theory Spec2Isabelle
  imports Main "HOL-Library.AList"
begin

section \<open>Data model\<close>

text \<open>
  A Go \<open>map[string]string\<close> is an association list. The order of the list is the
  order in which a \<open>range\<close> loop visits the entries, so a statement about every list
  with distinct keys is a statement about every iteration order. Lookup is
  \<^const>\<open>map_of\<close>, \<open>m[k] = v\<close> is \<^const>\<open>AList.update\<close>, \<open>delete(m, k)\<close> is
  \<^const>\<open>AList.delete\<close>. Two lists denote the same Go map when their
  \<^const>\<open>map_of\<close> agree.
\<close>

type_synonym kvmap = "(string \<times> string) list"

text \<open>A diagnostic of the plugin framework: summary and detail of an error.\<close>

type_synonym diag = "string \<times> string"

text \<open>
  \<open>KvKeysResourceModel\<close>. The string attributes are read with \<open>ValueString()\<close> only.
  The \<open>keys\<close> attribute is a framework map value; it is kept as the outcome of
  \<open>ElementsAs\<close> on it: \<open>Inl ds\<close> when the conversion reports the error diagnostics
  \<open>ds\<close>, \<open>Inr m\<close> when it yields the Go map \<open>m\<close>. \<open>types.MapValueFrom\<close> on a Go map
  of strings is \<open>Inr\<close>.
\<close>

record KvKeysResourceModel =
  ID :: string
  Mount :: string
  Path :: string
  Keys :: "diag list + kvmap"

text \<open>\<open>VaultClient\<close>: address and token; its HTTP client is the \<open>client_Do\<close> of the world below.\<close>

record VaultClient =
  Address :: string
  Token :: string

text \<open>
  An HTTP request as the resource builds it. The body of the POST is the JSON object
  \<open>{"data": data}\<close>; it is kept as the document \<open>data\<close> itself (\<open>json.Marshal\<close> of a
  map of strings has no failing case).
\<close>

record http_request =
  Method :: string
  URL :: string
  Header :: "(string \<times> string) list"
  Body :: "kvmap option"

text \<open>
  An HTTP response: the status code and what \<open>io.ReadAll(resp.Body)\<close> gives, the bytes
  read and the error, if any.
\<close>

record http_response =
  StatusCode :: nat
  ReadAll_bytes :: string
  ReadAll_err :: "string option"

text \<open>
  The library calls whose behaviour is outside the repository, as parameters:
  \<open>http.NewRequest\<close> (its error; with the valid methods \<open>GET\<close> and \<open>POST\<close> it
  fails only when the URL does not parse, so by URL), \<open>HTTPClient.Do\<close> (an error or a
  response), \<open>json.Unmarshal\<close> into the \<open>data.data\<close> struct (an error, a nil map or the
  decoded entries, of JSON values \<open>'v\<close>) and \<open>fmt.Sprintf("%v", v)\<close>.
\<close>

record 'v world =
  http_NewRequest_err :: "string \<Rightarrow> string option"
  client_Do :: "http_request \<Rightarrow> string + http_response"
  json_Unmarshal :: "string \<Rightarrow> string + (string \<times> 'v) list option"
  fmt_Sprintf_v :: "'v \<Rightarrow> string"

text \<open>What an operation does to the tracked state through \<open>resp.State\<close>.\<close>

datatype state_write = Untouched | RemoveResource | StateSet KvKeysResourceModel

record response =
  Diagnostics :: "diag list"
  State :: state_write

section \<open>Helpers of the resource\<close>

text \<open>\<open>%d\<close> of a non-negative status code.\<close>

fun decimal :: "nat \<Rightarrow> string" where
  "decimal n =
     (if n < 10 then [''0123456789'' ! n]
      else decimal (n div 10) @ [''0123456789'' ! (n mod 10)])"

declare decimal.simps [simp del]

text \<open>\<open>strings.Index(s, "/")\<close> for a one-byte separator: the first position, or -1.\<close>

definition strings_Index :: "string \<Rightarrow> char \<Rightarrow> int" where
  "strings_Index s c =
     (if c \<in> set s then int (length (takeWhile (\<lambda>x. x \<noteq> c) s)) else - 1)"

definition mergeKeys :: "kvmap \<Rightarrow> kvmap \<Rightarrow> kvmap" where
  "mergeKeys existingData newKeys =
     fold (\<lambda>(k, v) merged. AList.update k v merged) newKeys
       (fold (\<lambda>(k, v) merged. AList.update k v merged) existingData [])"

fun keysMatch :: "kvmap \<Rightarrow> kvmap \<Rightarrow> bool" where
  "keysMatch existing [] = True"
| "keysMatch existing ((k, v) # planned) =
     (case map_of existing k of
        None \<Rightarrow> False
      | Some ev \<Rightarrow> if ev \<noteq> v then False else keysMatch existing planned)"

section \<open>Transport\<close>

text \<open>
  \<open>readSecret\<close> and \<open>writeSecret\<close> return their Go result and the requests handed to
  \<open>HTTPClient.Do\<close>, in order. The URL and the two requests they build are named, so
  that statements can refer to them.
\<close>

definition secret_url :: "VaultClient \<Rightarrow> string \<Rightarrow> string \<Rightarrow> string" where
  "secret_url c mount path = Address c @ ''/v1/'' @ mount @ ''/data/'' @ path"

definition get_request :: "VaultClient \<Rightarrow> string \<Rightarrow> http_request" where
  "get_request c url =
     \<lparr>Method = ''GET'', URL = url,
      Header = [(''X-Vault-Token'', Token c), (''X-Vault-Request'', ''true'')],
      Body = None\<rparr>"

definition post_request :: "VaultClient \<Rightarrow> string \<Rightarrow> kvmap \<Rightarrow> http_request" where
  "post_request c url data =
     \<lparr>Method = ''POST'', URL = url,
      Header = [(''X-Vault-Token'', Token c), (''Content-Type'', ''application/json'')],
      Body = Some data\<rparr>"

definition readSecret ::
  "'v world \<Rightarrow> VaultClient \<Rightarrow> string \<Rightarrow> string \<Rightarrow> (string + kvmap) \<times> http_request list" where
  "readSecret w c mount path =
     (let url = secret_url c mount path in
      case http_NewRequest_err w url of
        Some err \<Rightarrow> (Inl (''failed to create request: '' @ err), [])
      | None \<Rightarrow>
          (let req = get_request c url in
           case client_Do w req of
             Inl err \<Rightarrow> (Inl (''failed to send request: '' @ err), [req])
           | Inr resp \<Rightarrow>
               (case ReadAll_err resp of
                  Some err \<Rightarrow> (Inl (''failed to read response: '' @ err), [req])
                | None \<Rightarrow>
                    if StatusCode resp = 404 then (Inr [], [req])
                    else if StatusCode resp \<noteq> 200 then
                      (Inl (''vault returned status '' @ decimal (StatusCode resp) @ '': ''
                            @ ReadAll_bytes resp), [req])
                    else
                      (case json_Unmarshal w (ReadAll_bytes resp) of
                         Inl err \<Rightarrow> (Inl (''failed to parse response: '' @ err), [req])
                       | Inr None \<Rightarrow> (Inr [], [req])
                       | Inr (Some d) \<Rightarrow>
                           (Inr (fold (\<lambda>(k, v) data. AList.update k (fmt_Sprintf_v w v) data) d []),
                            [req])))))"

definition writeSecret ::
  "'v world \<Rightarrow> VaultClient \<Rightarrow> string \<Rightarrow> string \<Rightarrow> kvmap \<Rightarrow> string option \<times> http_request list" where
  "writeSecret w c mount path data =
     (let url = secret_url c mount path in
      case http_NewRequest_err w url of
        Some err \<Rightarrow> (Some (''failed to create request: '' @ err), [])
      | None \<Rightarrow>
          (let req = post_request c url data in
           case client_Do w req of
             Inl err \<Rightarrow> (Some (''failed to send request: '' @ err), [req])
           | Inr resp \<Rightarrow>
               if StatusCode resp \<noteq> 200 \<and> StatusCode resp \<noteq> 204 then
                 (Some (''vault returned status '' @ decimal (StatusCode resp) @ '': ''
                        @ ReadAll_bytes resp), [req])
               else (None, [req])))"

section \<open>Lifecycle operations\<close>

text \<open>
  Each operation takes the world, the client of the configured resource and what the
  framework decoded from the request (\<open>Inl ds\<close>: \<open>Plan.Get\<close> or \<open>State.Get\<close> reported the
  errors \<open>ds\<close>), and returns the response and the requests sent. The \<open>tflog\<close> calls
  (and \<open>keysOnly\<close>, which only feeds them) are left out; \<open>State.Set\<close> and
  \<open>types.MapValueFrom\<close> on a model of the schema's shape report nothing. In \<open>Update\<close>
  and \<open>Delete\<close> the map \<open>existingData\<close> is mutated in place by \<open>delete\<close>; the model
  passes the updated map on.
\<close>

definition Create ::
  "'v world \<Rightarrow> VaultClient \<Rightarrow> diag list + KvKeysResourceModel \<Rightarrow> response \<times> http_request list" where
  "Create w c req_Plan =
     (case req_Plan of
        Inl ds \<Rightarrow> (\<lparr>Diagnostics = ds, State = Untouched\<rparr>, [])
      | Inr plan \<Rightarrow>
          (let mount = Mount plan; path = Path plan in
           case Keys plan of
             Inl ds \<Rightarrow> (\<lparr>Diagnostics = ds, State = Untouched\<rparr>, [])
           | Inr planKeys \<Rightarrow>
               (case readSecret w c mount path of
                  (Inl err, sent) \<Rightarrow>
                    (\<lparr>Diagnostics =
                        [(''Failed to Read Existing Secret'',
                          ''Could not read '' @ mount @ ''/'' @ path @ '': '' @ err)],
                      State = Untouched\<rparr>, sent)
                | (Inr existingData, sent) \<Rightarrow>
                    if \<not> keysMatch existingData planKeys then
                      (let merged = mergeKeys existingData planKeys in
                       case writeSecret w c mount path merged of
                         (Some err, sent') \<Rightarrow>
                           (\<lparr>Diagnostics =
                               [(''Failed to Write Secret'',
                                 ''Could not write to '' @ mount @ ''/'' @ path @ '': '' @ err)],
                             State = Untouched\<rparr>,
                            sent @ sent')
                       | (None, sent') \<Rightarrow>
                           (\<lparr>Diagnostics = [],
                             State = StateSet (plan\<lparr>ID := mount @ ''/'' @ path\<rparr>)\<rparr>,
                            sent @ sent'))
                    else
                      (\<lparr>Diagnostics = [],
                        State = StateSet (plan\<lparr>ID := mount @ ''/'' @ path\<rparr>)\<rparr>, sent))))"

definition Read ::
  "'v world \<Rightarrow> VaultClient \<Rightarrow> diag list + KvKeysResourceModel \<Rightarrow> response \<times> http_request list" where
  "Read w c req_State =
     (case req_State of
        Inl ds \<Rightarrow> (\<lparr>Diagnostics = ds, State = Untouched\<rparr>, [])
      | Inr state \<Rightarrow>
          (let mount = Mount state; path = Path state in
           case Keys state of
             Inl ds \<Rightarrow> (\<lparr>Diagnostics = ds, State = Untouched\<rparr>, [])
           | Inr stateKeys \<Rightarrow>
               (case readSecret w c mount path of
                  (Inl err, sent) \<Rightarrow> (\<lparr>Diagnostics = [], State = RemoveResource\<rparr>, sent)
                | (Inr existingData, sent) \<Rightarrow>
                    (let currentKeys =
                       fold (\<lambda>key cur. case map_of existingData key of
                                          Some val \<Rightarrow> AList.update key val cur
                                        | None \<Rightarrow> cur)
                            (map fst stateKeys) [] in
                     if length currentKeys = 0 then
                       (\<lparr>Diagnostics = [], State = RemoveResource\<rparr>, sent)
                     else
                       (\<lparr>Diagnostics = [],
                         State = StateSet (state\<lparr>Keys := Inr currentKeys\<rparr>)\<rparr>, sent)))))"

definition Update ::
  "'v world \<Rightarrow> VaultClient \<Rightarrow> diag list + KvKeysResourceModel \<Rightarrow>
   diag list + KvKeysResourceModel \<Rightarrow> response \<times> http_request list" where
  "Update w c req_Plan req_State =
     (case req_Plan of
        Inl ds \<Rightarrow> (\<lparr>Diagnostics = ds, State = Untouched\<rparr>, [])
      | Inr plan \<Rightarrow>
          (let mount = Mount plan; path = Path plan in
           case Keys plan of
             Inl ds \<Rightarrow> (\<lparr>Diagnostics = ds, State = Untouched\<rparr>, [])
           | Inr planKeys \<Rightarrow>
               (case req_State of
                  Inl ds \<Rightarrow> (\<lparr>Diagnostics = ds, State = Untouched\<rparr>, [])
                | Inr state \<Rightarrow>
                    (case Keys state of
                       Inl ds \<Rightarrow> (\<lparr>Diagnostics = ds, State = Untouched\<rparr>, [])
                     | Inr stateKeys \<Rightarrow>
                         (case readSecret w c mount path of
                            (Inl err, sent) \<Rightarrow>
                              (\<lparr>Diagnostics =
                                  [(''Failed to Read Existing Secret'',
                                    ''Could not read '' @ mount @ ''/'' @ path @ '': '' @ err)],
                                State = Untouched\<rparr>,
                               sent)
                          | (Inr existingData0, sent) \<Rightarrow>
                              (let existingData =
                                 fold (\<lambda>key ed. if map_of planKeys key = None
                                                 then AList.delete key ed else ed)
                                      (map fst stateKeys) existingData0;
                                   merged = mergeKeys existingData planKeys in
                               case writeSecret w c mount path merged of
                                 (Some err, sent') \<Rightarrow>
                                   (\<lparr>Diagnostics =
                                       [(''Failed to Write Secret'',
                                         ''Could not write to '' @ mount @ ''/'' @ path @ '': '' @ err)],
                                     State = Untouched\<rparr>, sent @ sent')
                               | (None, sent') \<Rightarrow>
                                   (\<lparr>Diagnostics = [],
                                     State = StateSet (plan\<lparr>ID := mount @ ''/'' @ path\<rparr>)\<rparr>,
                                    sent @ sent')))))))"

definition Delete ::
  "'v world \<Rightarrow> VaultClient \<Rightarrow> diag list + KvKeysResourceModel \<Rightarrow> response \<times> http_request list" where
  "Delete w c req_State =
     (case req_State of
        Inl ds \<Rightarrow> (\<lparr>Diagnostics = ds, State = Untouched\<rparr>, [])
      | Inr state \<Rightarrow>
          (let mount = Mount state; path = Path state in
           case Keys state of
             Inl ds \<Rightarrow> (\<lparr>Diagnostics = ds, State = Untouched\<rparr>, [])
           | Inr stateKeys \<Rightarrow>
               (case readSecret w c mount path of
                  (Inl err, sent) \<Rightarrow> (\<lparr>Diagnostics = [], State = Untouched\<rparr>, sent)
                | (Inr existingData0, sent) \<Rightarrow>
                    (let existingData =
                       fold (\<lambda>key ed. AList.delete key ed) (map fst stateKeys) existingData0 in
                     case writeSecret w c mount path existingData of
                       (Some err, sent') \<Rightarrow>
                         (\<lparr>Diagnostics =
                             [(''Failed to Write Secret After Delete'',
                               ''Could not update '' @ mount @ ''/'' @ path
                               @ '' after removing keys: '' @ err)],
                           State = Untouched\<rparr>, sent @ sent')
                     | (None, sent') \<Rightarrow>
                         (\<lparr>Diagnostics = [], State = Untouched\<rparr>, sent @ sent')))))"

definition ImportState ::
  "'v world \<Rightarrow> VaultClient \<Rightarrow> string \<Rightarrow> response \<times> http_request list" where
  "ImportState w c req_ID =
     (let id = req_ID; idx = strings_Index id (CHR ''/'') in
      if idx < 0 then
        (\<lparr>Diagnostics =
            [(''Invalid Import ID'',
              ''Import ID must be in the format 'mount/path' (e.g., 'app_envs/my-service/test').'')],
          State = Untouched\<rparr>, [])
      else
        (let mount = take (nat idx) id; path = drop (nat (idx + 1)) id in
         if mount = '''' \<or> path = '''' then
           (\<lparr>Diagnostics =
               [(''Invalid Import ID'',
                 ''Both mount and path must be non-empty. Format: 'mount/path'.'')],
             State = Untouched\<rparr>, [])
         else
           (case readSecret w c mount path of
              (Inl err, sent) \<Rightarrow>
                (\<lparr>Diagnostics =
                    [(''Failed to Read Secret During Import'',
                      ''Could not read '' @ mount @ ''/'' @ path @ '': '' @ err)],
                  State = Untouched\<rparr>, sent)
            | (Inr existingData, sent) \<Rightarrow>
                (\<lparr>Diagnostics = [],
                  State = StateSet \<lparr>ID = id, Mount = mount, Path = path,
                                    Keys = Inr existingData\<rparr>\<rparr>, sent))))"

section \<open>Test doubles\<close>

text \<open>
  Two worlds for the concrete instances below. \<open>fake_vault gs D ps\<close> answers every GET
  with status \<open>gs\<close> and a body that decodes to the entries \<open>D\<close>, and every other
  request with status \<open>ps\<close>; \<open>unreachable_vault\<close> fails every request. JSON values
  are strings that \<open>%v\<close> prints as they are.
\<close>

definition fake_vault :: "nat \<Rightarrow> kvmap \<Rightarrow> nat \<Rightarrow> string world" where
  "fake_vault gs D ps =
     \<lparr>http_NewRequest_err = (\<lambda>url. None),
      client_Do = (\<lambda>req. Inr \<lparr>StatusCode = (if Method req = ''GET'' then gs else ps),
                                ReadAll_bytes = ''body'', ReadAll_err = None\<rparr>),
      json_Unmarshal = (\<lambda>body. Inr (Some D)),
      fmt_Sprintf_v = (\<lambda>v. v)\<rparr>"

definition unreachable_vault :: "string world" where
  "unreachable_vault =
     \<lparr>http_NewRequest_err = (\<lambda>url. None),
      client_Do = (\<lambda>req. Inl ''connection refused''),
      json_Unmarshal = (\<lambda>body. Inl ''unexpected end of JSON input''),
      fmt_Sprintf_v = (\<lambda>v. v)\<rparr>"

definition test_client :: VaultClient where
  "test_client = \<lparr>Address = ''http://vault'', Token = ''t''\<rparr>"

definition test_model :: "kvmap \<Rightarrow> KvKeysResourceModel" where
  "test_model ks = \<lparr>ID = [], Mount = ''kv'', Path = ''app'', Keys = Inr ks\<rparr>"

section \<open>The map loops\<close>

lemma fold_update_map_of:
  "map_of (fold (\<lambda>(k, v) m. AList.update k v m) xs acc) = map_of acc ++ map_of (rev xs)"
proof (induction xs arbitrary: acc)
  case Nil
  show ?case by simp
next
  case (Cons x xs)
  obtain k v where x: "x = (k, v)" by (cases x)
  show ?case
    by (simp add: x Cons.IH update_conv' map_add_upd_left fun_eq_iff map_add_def split: option.splits)
qed

lemma fold_update_distinct:
  "distinct (map fst acc) \<Longrightarrow>
   distinct (map fst (fold (\<lambda>(k, v) m. AList.update k (f v) m) xs acc))"
  by (induction xs arbitrary: acc) (auto simp: distinct_update)

lemma fold_update_fresh:
  "distinct (map fst xs) \<Longrightarrow> fst ` set xs \<inter> fst ` set acc = {} \<Longrightarrow>
   fold (\<lambda>(k, v) m. AList.update k v m) xs acc = acc @ xs"
proof (induction xs arbitrary: acc)
  case Nil
  show ?case by simp
next
  case (Cons x xs)
  obtain k v where x: "x = (k, v)" by (cases x)
  have fresh: "k \<notin> fst ` set acc" using Cons.prems(2) by (auto simp: x)
  have upd: "AList.update k v acc = acc @ [(k, v)]"
    using fresh by (induction acc) auto
  have "fold (\<lambda>(k, v) m. AList.update k v m) xs (acc @ [(k, v)]) = (acc @ [(k, v)]) @ xs"
    using Cons.prems by (intro Cons.IH) (auto simp: x)
  then show ?case by (simp add: x upd)
qed

lemma fold_update_triv:
  "\<forall>(k, v) \<in> set xs. map_of acc k = Some v \<Longrightarrow>
   fold (\<lambda>(k, v) m. AList.update k v m) xs acc = acc"
  by (induction xs) (auto simp: update_triv)

lemma keysMatch_iff:
  "keysMatch existing planned \<longleftrightarrow> (\<forall>(k, v) \<in> set planned. map_of existing k = Some v)"
  by (induction existing planned rule: keysMatch.induct) (auto split: option.splits)

lemma fold_delete_map_of:
  "map_of (fold (\<lambda>key ed. AList.delete key ed) ks ed) k =
     (if k \<in> set ks then None else map_of ed k)"
  by (induction ks arbitrary: ed) (auto simp: delete_conv')

lemma fold_cond_delete_distinct:
  "distinct (map fst ed) \<Longrightarrow>
   distinct (map fst (fold (\<lambda>key ed. if p key then AList.delete key ed else ed) ks ed))"
  by (induction ks arbitrary: ed) (auto simp: distinct_delete)

lemma fold_cond_delete_map_of:
  "map_of (fold (\<lambda>key ed. if p key then AList.delete key ed else ed) ks ed) k =
     (if k \<in> set ks \<and> p k then None else map_of ed k)"
  by (induction ks arbitrary: ed) (auto simp: delete_conv')

lemma fold_observe_map_of:
  "map_of (fold (\<lambda>key cur. case map_of D key of
                               Some val \<Rightarrow> AList.update key val cur
                             | None \<Rightarrow> cur) ks cur) k =
     (if k \<in> set ks \<and> map_of D k \<noteq> None then map_of D k else map_of cur k)"
  by (induction ks arbitrary: cur) (auto simp: update_conv' split: option.splits)

lemma distinct_map_of_rev:
  "distinct (map fst xs) \<Longrightarrow> map_of (rev xs) = map_of xs"
proof (induction xs)
  case Nil
  show ?case by simp
next
  case (Cons x xs)
  obtain k v where x: "x = (k, v)" by (cases x)
  have "map_of xs k = None" using Cons.prems by (simp add: x map_of_eq_None_iff)
  then show ?case using Cons
    by (auto simp: x fun_eq_iff map_add_def split: option.splits)
qed

lemma mergeKeys_distinct: "distinct (map fst (mergeKeys D P))"
  unfolding mergeKeys_def
  by (intro fold_update_distinct [where f = "\<lambda>v. v"]) simp

lemma mergeKeys_lookup:
  assumes "distinct (map fst D)" "distinct (map fst P)"
  shows "map_of (mergeKeys D P) k = (case map_of P k of Some v \<Rightarrow> Some v | None \<Rightarrow> map_of D k)"
  using assms
  by (simp add: mergeKeys_def fold_update_map_of map_add_def distinct_map_of_rev split: option.splits)

lemma mergeKeys_unmanaged:
  assumes "distinct (map fst D)" "k \<notin> fst ` set P"
  shows "map_of (mergeKeys D P) k = map_of D k"
proof -
  have "map_of (rev P) k = None" using assms(2) by (simp add: map_of_eq_None_iff)
  then show ?thesis using assms(1)
    by (simp add: mergeKeys_def fold_update_map_of map_add_def distinct_map_of_rev)
qed

lemma mergeKeys_planned:
  assumes "distinct (map fst P)" "(k, v) \<in> set P"
  shows "map_of (mergeKeys D P) k = Some v"
  using assms
  by (simp add: mergeKeys_def fold_update_map_of map_add_def distinct_map_of_rev split: option.splits)

section \<open>What the operations send\<close>

lemma readSecret_sent:
  "snd (readSecret w c m p) =
     (if http_NewRequest_err w (secret_url c m p) = None
      then [get_request c (secret_url c m p)] else [])"
  by (simp add: readSecret_def Let_def split: option.splits sum.splits)

lemma readSecret_ok:
  assumes "fst (readSecret w c m p) = Inr D"
  shows "http_NewRequest_err w (secret_url c m p) = None \<and> distinct (map fst D)"
  using assms fold_update_distinct [of "[]" "fmt_Sprintf_v w"]
  by (auto simp: readSecret_def Let_def split: option.splits sum.splits if_splits)

lemma readSecret_ok_sent:
  assumes "fst (readSecret w c m p) = Inr D"
  shows "snd (readSecret w c m p) = [get_request c (secret_url c m p)]"
  using readSecret_ok [OF assms] by (simp add: readSecret_sent)

lemma writeSecret_sent:
  "snd (writeSecret w c m p d) =
     (if http_NewRequest_err w (secret_url c m p) = None
      then [post_request c (secret_url c m p) d] else [])"
  by (simp add: writeSecret_def Let_def split: option.splits sum.splits)

lemma Create_sent:
  assumes "Keys plan = Inr P" "fst (readSecret w c (Mount plan) (Path plan)) = Inr D"
  shows "snd (Create w c (Inr plan)) =
           (if keysMatch D P then [get_request c (secret_url c (Mount plan) (Path plan))]
            else [get_request c (secret_url c (Mount plan) (Path plan)),
                  post_request c (secret_url c (Mount plan) (Path plan)) (mergeKeys D P)])"
proof -
  obtain sent where r: "readSecret w c (Mount plan) (Path plan) = (Inr D, sent)"
    using assms(2) by (cases "readSecret w c (Mount plan) (Path plan)") simp
  have sent: "sent = [get_request c (secret_url c (Mount plan) (Path plan))]"
    using readSecret_ok_sent [OF assms(2)] r by simp
  obtain e s where wr: "writeSecret w c (Mount plan) (Path plan) (mergeKeys D P) = (e, s)"
    by (cases "writeSecret w c (Mount plan) (Path plan) (mergeKeys D P)")
  have s: "s = [post_request c (secret_url c (Mount plan) (Path plan)) (mergeKeys D P)]"
    using writeSecret_sent [of w c "Mount plan" "Path plan" "mergeKeys D P"]
      readSecret_ok [OF assms(2)] wr by simp
  show ?thesis
    by (cases e) (simp_all add: Create_def Let_def assms(1) r wr sent s)
qed

lemma Update_sent:
  assumes "Keys plan = Inr P" "Keys state = Inr S"
    "fst (readSecret w c (Mount plan) (Path plan)) = Inr D"
  shows "snd (Update w c (Inr plan) (Inr state)) =
           [get_request c (secret_url c (Mount plan) (Path plan)),
            post_request c (secret_url c (Mount plan) (Path plan))
              (mergeKeys (fold (\<lambda>key ed. if map_of P key = None then AList.delete key ed else ed)
                               (map fst S) D) P)]"
    (is "_ = [?g, post_request _ _ ?d]")
proof -
  obtain sent where r: "readSecret w c (Mount plan) (Path plan) = (Inr D, sent)"
    using assms(3) by (cases "readSecret w c (Mount plan) (Path plan)") simp
  have sent: "sent = [?g]"
    using readSecret_ok_sent [OF assms(3)] r by simp
  obtain e s where wr: "writeSecret w c (Mount plan) (Path plan) ?d = (e, s)"
    by (cases "writeSecret w c (Mount plan) (Path plan) ?d")
  have s: "s = [post_request c (secret_url c (Mount plan) (Path plan)) ?d]"
    using writeSecret_sent [of w c "Mount plan" "Path plan" ?d]
      readSecret_ok [OF assms(3)] wr by simp
  show ?thesis
    by (cases e) (simp_all add: Update_def Let_def assms(1,2) r wr sent s)
qed

lemma Delete_sent:
  assumes "Keys state = Inr S"
    "fst (readSecret w c (Mount state) (Path state)) = Inr D"
  shows "snd (Delete w c (Inr state)) =
           [get_request c (secret_url c (Mount state) (Path state)),
            post_request c (secret_url c (Mount state) (Path state))
              (fold (\<lambda>key ed. AList.delete key ed) (map fst S) D)]"
    (is "_ = [?g, post_request _ _ ?d]")
proof -
  obtain sent where r: "readSecret w c (Mount state) (Path state) = (Inr D, sent)"
    using assms(2) by (cases "readSecret w c (Mount state) (Path state)") simp
  have sent: "sent = [?g]"
    using readSecret_ok_sent [OF assms(2)] r by simp
  obtain e s where wr: "writeSecret w c (Mount state) (Path state) ?d = (e, s)"
    by (cases "writeSecret w c (Mount state) (Path state) ?d")
  have s: "s = [post_request c (secret_url c (Mount state) (Path state)) ?d]"
    using writeSecret_sent [of w c "Mount state" "Path state" ?d]
      readSecret_ok [OF assms(2)] wr by simp
  show ?thesis
    by (cases e) (simp_all add: Delete_def Let_def assms(1) r wr sent s)
qed

lemma update_doc_lookup:
  assumes "distinct (map fst D)" "distinct (map fst P)"
  shows "map_of (mergeKeys (fold (\<lambda>key ed. if map_of P key = None then AList.delete key ed else ed)
                               (map fst S) D) P) k =
         (case map_of P k of Some v \<Rightarrow> Some v
          | None \<Rightarrow> if k \<in> fst ` set S then None else map_of D k)"
  using assms
  by (simp add: mergeKeys_lookup fold_cond_delete_distinct fold_cond_delete_map_of
           split: option.splits)

section \<open>Failure paths of the operations\<close>

lemma fold_delete_id:
  "set ks \<inter> fst ` set ed = {} \<Longrightarrow> fold (\<lambda>key ed. AList.delete key ed) ks ed = ed"
  by (induction ks arbitrary: ed) auto

lemma readSecret_sent_no_body:
  "\<forall>req \<in> set (snd (readSecret w c m p)). Body req = None"
  by (simp add: readSecret_sent get_request_def)

lemma writeSecret_cong:
  assumes "http_NewRequest_err w' = http_NewRequest_err w"
    and "\<forall>u d. client_Do w' (post_request c u d) = client_Do w (post_request c u d)"
  shows "writeSecret w' c m p d = writeSecret w c m p d"
  using assms by (simp add: writeSecret_def Let_def split: option.splits)

lemma strings_Index_split:
  assumes "c \<notin> set a"
  shows "strings_Index (a @ c # b) c = int (length a)"
proof -
  have "takeWhile (\<lambda>x. x \<noteq> c) (a @ c # b) = a"
    using assms by (induction a) auto
  then show ?thesis by (simp add: strings_Index_def)
qed

lemma Create_fetch_failed:
  assumes "Keys plan = Inr P"
    "fst (readSecret w c (Mount plan) (Path plan)) = Inl err"
  shows "Create w c (Inr plan) =
           (\<lparr>Diagnostics =
               [(''Failed to Read Existing Secret'',
                 ''Could not read '' @ Mount plan @ ''/'' @ Path plan @ '': '' @ err)],
             State = Untouched\<rparr>,
            snd (readSecret w c (Mount plan) (Path plan)))"
  using assms
  by (cases "readSecret w c (Mount plan) (Path plan)") (simp add: Create_def Let_def)

lemma Update_fetch_failed:
  assumes "Keys plan = Inr P" "Keys state = Inr S"
    "fst (readSecret w c (Mount plan) (Path plan)) = Inl err"
  shows "Update w c (Inr plan) (Inr state) =
           (\<lparr>Diagnostics =
               [(''Failed to Read Existing Secret'',
                 ''Could not read '' @ Mount plan @ ''/'' @ Path plan @ '': '' @ err)],
             State = Untouched\<rparr>,
            snd (readSecret w c (Mount plan) (Path plan)))"
  using assms
  by (cases "readSecret w c (Mount plan) (Path plan)") (simp add: Update_def Let_def)

lemma Read_fetch_failed:
  assumes "Keys state = Inr S"
    "fst (readSecret w c (Mount state) (Path state)) = Inl err"
  shows "Read w c (Inr state) =
           (\<lparr>Diagnostics = [], State = RemoveResource\<rparr>,
            snd (readSecret w c (Mount state) (Path state)))"
  using assms
  by (cases "readSecret w c (Mount state) (Path state)") (simp add: Read_def Let_def)

lemma Delete_fetch_failed:
  assumes "Keys state = Inr S"
    "fst (readSecret w c (Mount state) (Path state)) = Inl err"
  shows "Delete w c (Inr state) =
           (\<lparr>Diagnostics = [], State = Untouched\<rparr>,
            snd (readSecret w c (Mount state) (Path state)))"
  using assms
  by (cases "readSecret w c (Mount state) (Path state)") (simp add: Delete_def Let_def)

lemma ImportState_fetch_failed:
  assumes "CHR ''/'' \<notin> set mount" "mount \<noteq> []" "path \<noteq> []"
    and "fst (readSecret w c mount path) = Inl err"
  shows "ImportState w c (mount @ ''/'' @ path) =
           (\<lparr>Diagnostics =
               [(''Failed to Read Secret During Import'',
                 ''Could not read '' @ mount @ ''/'' @ path @ '': '' @ err)],
             State = Untouched\<rparr>,
            snd (readSecret w c mount path))"
proof -
  obtain sent where r: "readSecret w c mount path = (Inl err, sent)"
    using assms(4) by (cases "readSecret w c mount path") simp
  have idx: "strings_Index (mount @ CHR ''/'' # path) (CHR ''/'') = int (length mount)"
    using assms(1) by (rule strings_Index_split)
  have suc: "nat (int (length mount) + 1) = Suc (length mount)" by simp
  show ?thesis
    using assms(2,3) by (simp add: ImportState_def Let_def idx suc r)
qed

lemma Create_store_failed:
  assumes "Keys plan = Inr P" "fst (readSecret w c (Mount plan) (Path plan)) = Inr D"
    and "\<not> keysMatch D P"
    and "fst (writeSecret w c (Mount plan) (Path plan) (mergeKeys D P)) = Some err"
  shows "fst (Create w c (Inr plan)) =
           \<lparr>Diagnostics =
              [(''Failed to Write Secret'',
                ''Could not write to '' @ Mount plan @ ''/'' @ Path plan @ '': '' @ err)],
            State = Untouched\<rparr>"
  using assms
  by (cases "readSecret w c (Mount plan) (Path plan)";
      cases "writeSecret w c (Mount plan) (Path plan) (mergeKeys D P)")
     (simp add: Create_def Let_def)

lemma Update_store_failed:
  assumes "Keys plan = Inr P" "Keys state = Inr S"
    and "fst (readSecret w c (Mount plan) (Path plan)) = Inr D"
    and "fst (writeSecret w c (Mount plan) (Path plan)
               (mergeKeys (fold (\<lambda>key ed. if map_of P key = None then AList.delete key ed else ed)
                                (map fst S) D) P)) = Some err"
  shows "fst (Update w c (Inr plan) (Inr state)) =
           \<lparr>Diagnostics =
              [(''Failed to Write Secret'',
                ''Could not write to '' @ Mount plan @ ''/'' @ Path plan @ '': '' @ err)],
            State = Untouched\<rparr>"
  using assms
  by (cases "readSecret w c (Mount plan) (Path plan)";
      cases "writeSecret w c (Mount plan) (Path plan)
               (mergeKeys (fold (\<lambda>key ed. if map_of P key = None then AList.delete key ed else ed)
                                (map fst S) D) P)")
     (simp add: Update_def Let_def)

lemma Delete_store_failed:
  assumes "Keys state = Inr S"
    and "fst (readSecret w c (Mount state) (Path state)) = Inr D"
    and "fst (writeSecret w c (Mount state) (Path state)
               (fold (\<lambda>key ed. AList.delete key ed) (map fst S) D)) = Some err"
  shows "fst (Delete w c (Inr state)) =
           \<lparr>Diagnostics =
              [(''Failed to Write Secret After Delete'',
                ''Could not update '' @ Mount state @ ''/'' @ Path state
                @ '' after removing keys: '' @ err)],
            State = Untouched\<rparr>"
  using assms
  by (cases "readSecret w c (Mount state) (Path state)";
      cases "writeSecret w c (Mount state) (Path state)
               (fold (\<lambda>key ed. AList.delete key ed) (map fst S) D)")
     (simp add: Delete_def Let_def)

section \<open>Create idempotence\<close>

text \<open>
  C8. For every document \<open>D\<close> and every planned set \<open>P\<close> (a Go map: no key twice), the
  document that create computes from \<open>D\<close> already matches \<open>P\<close>, so a second create on it
  reports changed = false, and merging \<open>P\<close> into it again gives the same document,
  entry for entry.
\<close>

theorem create_idempotent:
  assumes "distinct (map fst P)"
  shows "keysMatch (mergeKeys D P) P \<and> mergeKeys (mergeKeys D P) P = mergeKeys D P"
proof -
  have hit: "\<forall>(k, v) \<in> set P. map_of (mergeKeys D P) k = Some v"
    using mergeKeys_planned [OF assms] by auto
  have "fold (\<lambda>(k, v) m. AList.update k v m) (mergeKeys D P) [] = [] @ mergeKeys D P"
    by (intro fold_update_fresh) (simp_all add: mergeKeys_distinct)
  then have "mergeKeys (mergeKeys D P) P =
             fold (\<lambda>(k, v) m. AList.update k v m) P (mergeKeys D P)"
    by (simp add: mergeKeys_def [of "mergeKeys D P"])
  also have "\<dots> = mergeKeys D P" using hit by (rule fold_update_triv)
  finally show ?thesis using hit by (simp add: keysMatch_iff)
qed

theorem create_idempotent_witness:
  "distinct (map fst [(''a'', ''1''), (''b'', ''2'')])
   \<and> keysMatch (mergeKeys [(''a'', ''0''), (''z'', ''9'')] [(''a'', ''1''), (''b'', ''2'')])
        [(''a'', ''1''), (''b'', ''2'')]
   \<and> mergeKeys (mergeKeys [(''a'', ''0''), (''z'', ''9'')] [(''a'', ''1''), (''b'', ''2'')])
        [(''a'', ''1''), (''b'', ''2'')]
      = [(''a'', ''1''), (''z'', ''9''), (''b'', ''2'')]"
  using create_idempotent [of "[(''a'', ''1''), (''b'', ''2'')]" "[(''a'', ''0''), (''z'', ''9'')]"]
  by (simp add: mergeKeys_def)

lemmas run_defs =
  Create_def Read_def Update_def Delete_def ImportState_def readSecret_def writeSecret_def
  fake_vault_def unreachable_vault_def test_client_def test_model_def secret_url_def
  get_request_def post_request_def mergeKeys_def strings_Index_def Let_def decimal.simps

section \<open>Unmanaged keys\<close>

text \<open>
  C1. Let \<open>D\<close> be the document \<open>readSecret\<close> fetched (for create and update at the
  plan's location, for delete, \<open>D'\<close>, at the state's), \<open>P\<close> the planned keys and \<open>S\<close> the
  prior or tracked keys. A key \<open>k\<close> outside the managed sets involved has, in every
  document the operation stores, exactly its value in the fetched document (absent
  when it was absent): create stores nothing or one document with \<open>d[k] = D[k]\<close>;
  update and delete store exactly one document, with \<open>d[k] = D[k]\<close>.
\<close>

theorem unmanaged_keys_preserved:
  assumes "Keys plan = Inr P" "Keys state = Inr S"
    and "fst (readSecret w c (Mount plan) (Path plan)) = Inr D"
    and "fst (readSecret w c (Mount state) (Path state)) = Inr D'"
  shows "(k \<notin> fst ` set P \<longrightarrow>
            snd (Create w c (Inr plan)) = [get_request c (secret_url c (Mount plan) (Path plan))]
          \<or> (\<exists>d. snd (Create w c (Inr plan)) =
                    [get_request c (secret_url c (Mount plan) (Path plan)),
                     post_request c (secret_url c (Mount plan) (Path plan)) d]
                \<and> map_of d k = map_of D k))
       \<and> (k \<notin> fst ` set P \<union> fst ` set S \<longrightarrow>
            (\<exists>d. snd (Update w c (Inr plan) (Inr state)) =
                    [get_request c (secret_url c (Mount plan) (Path plan)),
                     post_request c (secret_url c (Mount plan) (Path plan)) d]
                \<and> map_of d k = map_of D k))
       \<and> (k \<notin> fst ` set S \<longrightarrow>
            (\<exists>d. snd (Delete w c (Inr state)) =
                    [get_request c (secret_url c (Mount state) (Path state)),
                     post_request c (secret_url c (Mount state) (Path state)) d]
                \<and> map_of d k = map_of D' k))"
proof -
  have d: "distinct (map fst D)" using readSecret_ok [OF assms(3)] by simp
  have create: "snd (Create w c (Inr plan)) = [get_request c (secret_url c (Mount plan) (Path plan))]
          \<or> (\<exists>d. snd (Create w c (Inr plan)) =
                    [get_request c (secret_url c (Mount plan) (Path plan)),
                     post_request c (secret_url c (Mount plan) (Path plan)) d]
                \<and> map_of d k = map_of D k)"
    if k: "k \<notin> fst ` set P"
  proof (cases "keysMatch D P")
    case True
    then show ?thesis by (simp add: Create_sent [OF assms(1,3)])
  next
    case False
    have "snd (Create w c (Inr plan)) =
            [get_request c (secret_url c (Mount plan) (Path plan)),
             post_request c (secret_url c (Mount plan) (Path plan)) (mergeKeys D P)]
          \<and> map_of (mergeKeys D P) k = map_of D k"
      using False mergeKeys_unmanaged [OF d k] by (simp add: Create_sent [OF assms(1,3)])
    then show ?thesis by blast
  qed
  have update: "\<exists>d. snd (Update w c (Inr plan) (Inr state)) =
                    [get_request c (secret_url c (Mount plan) (Path plan)),
                     post_request c (secret_url c (Mount plan) (Path plan)) d]
                \<and> map_of d k = map_of D k"
    if k: "k \<notin> fst ` set P \<union> fst ` set S"
  proof -
    let ?e = "fold (\<lambda>key ed. if map_of P key = None then AList.delete key ed else ed)
                   (map fst S) D"
    have "distinct (map fst ?e)" using d by (rule fold_cond_delete_distinct)
    then have "map_of (mergeKeys ?e P) k = map_of ?e k"
      using k by (intro mergeKeys_unmanaged) simp_all
    also have "\<dots> = map_of D k" using k by (simp add: fold_cond_delete_map_of)
    finally show ?thesis
      by (intro exI [of _ "mergeKeys ?e P"]) (simp add: Update_sent [OF assms(1,2,3)])
  qed
  have delete: "\<exists>d. snd (Delete w c (Inr state)) =
                    [get_request c (secret_url c (Mount state) (Path state)),
                     post_request c (secret_url c (Mount state) (Path state)) d]
                \<and> map_of d k = map_of D' k"
    if k: "k \<notin> fst ` set S"
    using k
    by (intro exI [of _ "fold (\<lambda>key ed. AList.delete key ed) (map fst S) D'"])
       (simp add: Delete_sent [OF assms(2,4)] fold_delete_map_of)
  show ?thesis using create update delete by blast
qed

theorem unmanaged_keys_preserved_witness:
  "Keys (test_model [(''a'', ''1'')]) = Inr [(''a'', ''1'')]
   \<and> Keys (test_model [(''a'', ''1''), (''b'', ''2'')]) = Inr [(''a'', ''1''), (''b'', ''2'')]
   \<and> fst (readSecret (fake_vault 200 [(''a'', ''0''), (''b'', ''2''), (''c'', ''3'')] 200)
            test_client ''kv'' ''app'')
       = Inr [(''a'', ''0''), (''b'', ''2''), (''c'', ''3'')]
   \<and> ''c'' \<notin> fst ` set [(''a'', ''1'')] \<union> fst ` set [(''a'', ''1''), (''b'', ''2'')]
   \<and> snd (Create (fake_vault 200 [(''a'', ''0''), (''b'', ''2''), (''c'', ''3'')] 200) test_client
            (Inr (test_model [(''a'', ''1'')])))
       = [get_request test_client ''http://vault/v1/kv/data/app'',
          post_request test_client ''http://vault/v1/kv/data/app''
            [(''a'', ''1''), (''b'', ''2''), (''c'', ''3'')]]
   \<and> snd (Update (fake_vault 200 [(''a'', ''0''), (''b'', ''2''), (''c'', ''3'')] 200) test_client
            (Inr (test_model [(''a'', ''1'')]))
            (Inr (test_model [(''a'', ''1''), (''b'', ''2'')])))
       = [get_request test_client ''http://vault/v1/kv/data/app'',
          post_request test_client ''http://vault/v1/kv/data/app''
            [(''a'', ''1''), (''c'', ''3'')]]
   \<and> snd (Delete (fake_vault 200 [(''a'', ''0''), (''b'', ''2''), (''c'', ''3'')] 200) test_client
            (Inr (test_model [(''a'', ''1''), (''b'', ''2'')])))
       = [get_request test_client ''http://vault/v1/kv/data/app'',
          post_request test_client ''http://vault/v1/kv/data/app'' [(''c'', ''3'')]]"
  using unmanaged_keys_preserved [of "test_model [(''a'', ''1'')]" "[(''a'', ''1'')]"
      "test_model [(''a'', ''1''), (''b'', ''2'')]" "[(''a'', ''1''), (''b'', ''2'')]"
      "fake_vault 200 [(''a'', ''0''), (''b'', ''2''), (''c'', ''3'')] 200" test_client
      "[(''a'', ''0''), (''b'', ''2''), (''c'', ''3'')]"
      "[(''a'', ''0''), (''b'', ''2''), (''c'', ''3'')]" "''c''"]
  by (simp add: run_defs)

section \<open>Update\<close>

text \<open>
  C2. When the fetch gives \<open>D\<close>, update always sends one store, whatever \<open>D\<close>, the prior
  set \<open>S\<close> and the planned set \<open>P\<close> are (no skip when nothing changes). The stored
  document holds the planned value at every planned key, also at keys in both sets; a
  prior key that is not planned is gone from it whatever its remote value was; every
  other key keeps the fetched value.
\<close>

theorem Update_algorithm:
  assumes "Keys plan = Inr P" "Keys state = Inr S" "distinct (map fst P)"
    and "fst (readSecret w c (Mount plan) (Path plan)) = Inr D"
  shows "\<exists>d. snd (Update w c (Inr plan) (Inr state)) =
               [get_request c (secret_url c (Mount plan) (Path plan)),
                post_request c (secret_url c (Mount plan) (Path plan)) d]
           \<and> (\<forall>k. map_of d k =
                    (case map_of P k of
                       Some v \<Rightarrow> Some v
                     | None \<Rightarrow> if k \<in> fst ` set S then None else map_of D k))"
proof -
  have d: "distinct (map fst D)" using readSecret_ok [OF assms(4)] by simp
  let ?d = "mergeKeys (fold (\<lambda>key ed. if map_of P key = None then AList.delete key ed else ed)
                              (map fst S) D) P"
  show ?thesis
    by (rule exI [of _ ?d])
       (simp add: Update_sent [OF assms(1,2,4)] update_doc_lookup [OF d assms(3)])
qed

theorem Update_algorithm_witness:
  "Keys (test_model [(''a'', ''1'')]) = Inr [(''a'', ''1'')]
   \<and> Keys (test_model [(''a'', ''1''), (''b'', ''2'')]) = Inr [(''a'', ''1''), (''b'', ''2'')]
   \<and> distinct (map fst [(''a'', ''1'')])
   \<and> fst (readSecret (fake_vault 200 [(''a'', ''1''), (''b'', ''7''), (''c'', ''3'')] 200)
            test_client ''kv'' ''app'')
       = Inr [(''a'', ''1''), (''b'', ''7''), (''c'', ''3'')]
   \<and> snd (Update (fake_vault 200 [(''a'', ''1''), (''b'', ''7''), (''c'', ''3'')] 200) test_client
            (Inr (test_model [(''a'', ''1'')]))
            (Inr (test_model [(''a'', ''1''), (''b'', ''2'')])))
       = [get_request test_client ''http://vault/v1/kv/data/app'',
          post_request test_client ''http://vault/v1/kv/data/app''
            [(''a'', ''1''), (''c'', ''3'')]]"
  using Update_algorithm [of "test_model [(''a'', ''1'')]" "[(''a'', ''1'')]"
      "test_model [(''a'', ''1''), (''b'', ''2'')]" "[(''a'', ''1''), (''b'', ''2'')]"
      "fake_vault 200 [(''a'', ''1''), (''b'', ''7''), (''c'', ''3'')] 200" test_client
      "[(''a'', ''1''), (''b'', ''7''), (''c'', ''3'')]"]
  by (simp add: run_defs)

section \<open>Create\<close>

text \<open>
  C3. When the fetch gives \<open>D\<close> and \<open>P\<close> is the planned set, create finds nothing to
  change (\<open>keysMatch\<close>) exactly when every planned key is in \<open>D\<close> with the planned
  value. Then it sends no store: the fetch is its only request, and the plan becomes
  the state. Otherwise it stores one document, \<open>D\<close> with every planned entry inserted
  or overwritten and every other key as in \<open>D\<close>.
\<close>

theorem Create_algorithm:
  assumes "Keys plan = Inr P" "distinct (map fst P)"
    and "fst (readSecret w c (Mount plan) (Path plan)) = Inr D"
  shows "(keysMatch D P \<longleftrightarrow> (\<forall>k v. map_of P k = Some v \<longrightarrow> map_of D k = Some v))
       \<and> (keysMatch D P \<longrightarrow>
            Create w c (Inr plan) =
              (\<lparr>Diagnostics = [],
                State = StateSet (plan\<lparr>ID := Mount plan @ ''/'' @ Path plan\<rparr>)\<rparr>,
               [get_request c (secret_url c (Mount plan) (Path plan))]))
       \<and> (\<not> keysMatch D P \<longrightarrow>
            (\<exists>merged. snd (Create w c (Inr plan)) =
                         [get_request c (secret_url c (Mount plan) (Path plan)),
                          post_request c (secret_url c (Mount plan) (Path plan)) merged]
                     \<and> (\<forall>k. map_of merged k =
                              (case map_of P k of Some v \<Rightarrow> Some v | None \<Rightarrow> map_of D k))))"
proof (intro conjI impI)
  show "keysMatch D P \<longleftrightarrow> (\<forall>k v. map_of P k = Some v \<longrightarrow> map_of D k = Some v)"
    using assms(2) by (auto simp: keysMatch_iff)
next
  assume m: "keysMatch D P"
  obtain sent where r: "readSecret w c (Mount plan) (Path plan) = (Inr D, sent)"
    using assms(3) by (cases "readSecret w c (Mount plan) (Path plan)") simp
  have "sent = [get_request c (secret_url c (Mount plan) (Path plan))]"
    using readSecret_ok_sent [OF assms(3)] r by simp
  then show "Create w c (Inr plan) =
      (\<lparr>Diagnostics = [], State = StateSet (plan\<lparr>ID := Mount plan @ ''/'' @ Path plan\<rparr>)\<rparr>,
       [get_request c (secret_url c (Mount plan) (Path plan))])"
    by (simp add: Create_def Let_def assms(1) r m)
next
  assume m: "\<not> keysMatch D P"
  have d: "distinct (map fst D)" using readSecret_ok [OF assms(3)] by simp
  show "\<exists>merged. snd (Create w c (Inr plan)) =
                         [get_request c (secret_url c (Mount plan) (Path plan)),
                          post_request c (secret_url c (Mount plan) (Path plan)) merged]
                     \<and> (\<forall>k. map_of merged k =
                              (case map_of P k of Some v \<Rightarrow> Some v | None \<Rightarrow> map_of D k))"
    by (rule exI [of _ "mergeKeys D P"])
       (simp add: Create_sent [OF assms(1,3)] m mergeKeys_lookup [OF d assms(2)])
qed

theorem Create_algorithm_witness:
  "Keys (test_model [(''a'', ''x'')]) = Inr [(''a'', ''x'')]
   \<and> distinct (map fst [(''a'', ''x'')])
   \<and> fst (readSecret (fake_vault 200 [(''a'', ''x'')] 200) test_client ''kv'' ''app'')
       = Inr [(''a'', ''x'')]
   \<and> keysMatch [(''a'', ''x'')] [(''a'', ''x'')]
   \<and> Create (fake_vault 200 [(''a'', ''x'')] 200) test_client (Inr (test_model [(''a'', ''x'')]))
       = (\<lparr>Diagnostics = [],
           State = StateSet \<lparr>ID = ''kv/app'', Mount = ''kv'', Path = ''app'',
                             Keys = Inr [(''a'', ''x'')]\<rparr>\<rparr>,
          [get_request test_client ''http://vault/v1/kv/data/app''])
   \<and> fst (readSecret (fake_vault 200 [(''a'', ''0''), (''z'', ''9'')] 200) test_client ''kv'' ''app'')
       = Inr [(''a'', ''0''), (''z'', ''9'')]
   \<and> \<not> keysMatch [(''a'', ''0''), (''z'', ''9'')] [(''a'', ''x'')]
   \<and> snd (Create (fake_vault 200 [(''a'', ''0''), (''z'', ''9'')] 200) test_client
            (Inr (test_model [(''a'', ''x'')])))
       = [get_request test_client ''http://vault/v1/kv/data/app'',
          post_request test_client ''http://vault/v1/kv/data/app''
            [(''a'', ''x''), (''z'', ''9'')]]"
  using Create_algorithm [of "test_model [(''a'', ''x'')]" "[(''a'', ''x'')]"
      "fake_vault 200 [(''a'', ''x'')] 200" test_client "[(''a'', ''x'')]"]
    Create_algorithm [of "test_model [(''a'', ''x'')]" "[(''a'', ''x'')]"
      "fake_vault 200 [(''a'', ''0''), (''z'', ''9'')] 200" test_client
      "[(''a'', ''0''), (''z'', ''9'')]"]
  by (simp add: run_defs)

section \<open>Delete\<close>

text \<open>
  C5. When the fetch gives \<open>D\<close>, delete stores one document: \<open>D\<close> without the tracked
  keys \<open>S\<close>, every other key as in \<open>D\<close>. When the fetch fails, delete reports no error,
  leaves the state alone and sends nothing that carries a document.
\<close>

theorem Delete_algorithm:
  assumes "Keys state = Inr S"
  shows "(\<forall>D. fst (readSecret w c (Mount state) (Path state)) = Inr D \<longrightarrow>
            (\<exists>d. snd (Delete w c (Inr state)) =
                    [get_request c (secret_url c (Mount state) (Path state)),
                     post_request c (secret_url c (Mount state) (Path state)) d]
                \<and> (\<forall>k. map_of d k = (if k \<in> fst ` set S then None else map_of D k))))
       \<and> (\<forall>err. fst (readSecret w c (Mount state) (Path state)) = Inl err \<longrightarrow>
            fst (Delete w c (Inr state)) = \<lparr>Diagnostics = [], State = Untouched\<rparr>
          \<and> (\<forall>req \<in> set (snd (Delete w c (Inr state))). Body req = None))"
proof (intro conjI allI impI)
  fix D
  assume f: "fst (readSecret w c (Mount state) (Path state)) = Inr D"
  show "\<exists>d. snd (Delete w c (Inr state)) =
                    [get_request c (secret_url c (Mount state) (Path state)),
                     post_request c (secret_url c (Mount state) (Path state)) d]
                \<and> (\<forall>k. map_of d k = (if k \<in> fst ` set S then None else map_of D k))"
    by (intro exI [of _ "fold (\<lambda>key ed. AList.delete key ed) (map fst S) D"])
       (simp add: Delete_sent [OF assms f] fold_delete_map_of)
next
  fix err
  assume f: "fst (readSecret w c (Mount state) (Path state)) = Inl err"
  show "fst (Delete w c (Inr state)) = \<lparr>Diagnostics = [], State = Untouched\<rparr>"
    by (simp add: Delete_fetch_failed [OF assms f])
  show "\<forall>req \<in> set (snd (Delete w c (Inr state))). Body req = None"
    using readSecret_sent_no_body [of w c "Mount state" "Path state"]
    by (simp add: Delete_fetch_failed [OF assms f])
qed

theorem Delete_algorithm_witness:
  "Keys (test_model [(''a'', ''1'')]) = Inr [(''a'', ''1'')]
   \<and> fst (readSecret (fake_vault 200 [(''a'', ''1''), (''z'', ''9'')] 200) test_client ''kv'' ''app'')
       = Inr [(''a'', ''1''), (''z'', ''9'')]
   \<and> snd (Delete (fake_vault 200 [(''a'', ''1''), (''z'', ''9'')] 200) test_client
            (Inr (test_model [(''a'', ''1'')])))
       = [get_request test_client ''http://vault/v1/kv/data/app'',
          post_request test_client ''http://vault/v1/kv/data/app'' [(''z'', ''9'')]]
   \<and> fst (readSecret unreachable_vault test_client ''kv'' ''app'')
       = Inl ''failed to send request: connection refused''
   \<and> Delete unreachable_vault test_client (Inr (test_model [(''a'', ''1'')]))
       = (\<lparr>Diagnostics = [], State = Untouched\<rparr>,
          [get_request test_client ''http://vault/v1/kv/data/app''])"
  using Delete_algorithm [of "test_model [(''a'', ''1'')]" "[(''a'', ''1'')]"
      "fake_vault 200 [(''a'', ''1''), (''z'', ''9'')] 200" test_client]
    Delete_algorithm [of "test_model [(''a'', ''1'')]" "[(''a'', ''1'')]"
      unreachable_vault test_client]
  by (simp add: run_defs)

text \<open>
  C10. Whenever the fetch succeeds with a document \<open>D\<close>, whatever \<open>D\<close> and the tracked
  set \<open>S\<close> are, delete sends the fetch and then exactly one store, of the remaining
  document: \<open>D\<close> without the tracked keys. When none of the tracked keys is in \<open>D\<close>,
  the stored document is \<open>D\<close> itself. When the server answers the fetch with 404,
  \<open>readSecret\<close> gives the empty map without error, and delete posts the empty document
  to the path.
\<close>

theorem Delete_always_stores:
  assumes "Keys state = Inr S"
  shows "(\<forall>D. fst (readSecret w c (Mount state) (Path state)) = Inr D \<longrightarrow>
            (\<exists>d. snd (Delete w c (Inr state)) =
                    [get_request c (secret_url c (Mount state) (Path state)),
                     post_request c (secret_url c (Mount state) (Path state)) d]
                \<and> (\<forall>k. map_of d k = (if k \<in> fst ` set S then None else map_of D k))
                \<and> (fst ` set S \<inter> fst ` set D = {} \<longrightarrow> d = D)))
       \<and> (\<forall>resp. http_NewRequest_err w (secret_url c (Mount state) (Path state)) = None
              \<and> client_Do w (get_request c (secret_url c (Mount state) (Path state))) = Inr resp
              \<and> ReadAll_err resp = None \<and> StatusCode resp = 404 \<longrightarrow>
            snd (Delete w c (Inr state)) =
              [get_request c (secret_url c (Mount state) (Path state)),
               post_request c (secret_url c (Mount state) (Path state)) []])"
proof (intro conjI allI impI)
  fix D
  assume f: "fst (readSecret w c (Mount state) (Path state)) = Inr D"
  let ?d = "fold (\<lambda>key ed. AList.delete key ed) (map fst S) D"
  have same: "fst ` set S \<inter> fst ` set D = {} \<longrightarrow> ?d = D"
  proof
    assume "fst ` set S \<inter> fst ` set D = {}"
    then show "?d = D" by (intro fold_delete_id) simp
  qed
  show "\<exists>d. snd (Delete w c (Inr state)) =
               [get_request c (secret_url c (Mount state) (Path state)),
                post_request c (secret_url c (Mount state) (Path state)) d]
           \<and> (\<forall>k. map_of d k = (if k \<in> fst ` set S then None else map_of D k))
           \<and> (fst ` set S \<inter> fst ` set D = {} \<longrightarrow> d = D)"
    using same
    by (intro exI [of _ ?d]) (simp add: Delete_sent [OF assms f] fold_delete_map_of)
next
  fix resp
  assume a: "http_NewRequest_err w (secret_url c (Mount state) (Path state)) = None
              \<and> client_Do w (get_request c (secret_url c (Mount state) (Path state))) = Inr resp
              \<and> ReadAll_err resp = None \<and> StatusCode resp = 404"
  then have f: "fst (readSecret w c (Mount state) (Path state)) = Inr []"
    by (simp add: readSecret_def Let_def)
  have "fold (\<lambda>key ed. AList.delete key ed) (map fst S) [] = ([] :: kvmap)"
    by (intro fold_delete_id) simp
  then show "snd (Delete w c (Inr state)) =
              [get_request c (secret_url c (Mount state) (Path state)),
               post_request c (secret_url c (Mount state) (Path state)) []]"
    by (simp add: Delete_sent [OF assms f])
qed

theorem Delete_always_stores_witness:
  "Keys (test_model [(''a'', ''1'')]) = Inr [(''a'', ''1'')]
   \<and> fst (readSecret (fake_vault 200 [(''a'', ''5''), (''z'', ''9'')] 200) test_client ''kv'' ''app'')
       = Inr [(''a'', ''5''), (''z'', ''9'')]
   \<and> snd (Delete (fake_vault 200 [(''a'', ''5''), (''z'', ''9'')] 200) test_client
            (Inr (test_model [(''a'', ''1'')])))
       = [get_request test_client ''http://vault/v1/kv/data/app'',
          post_request test_client ''http://vault/v1/kv/data/app'' [(''z'', ''9'')]]
   \<and> fst (readSecret (fake_vault 200 [(''z'', ''9'')] 200) test_client ''kv'' ''app'')
       = Inr [(''z'', ''9'')]
   \<and> fst ` set [(''a'', ''1'')] \<inter> fst ` set [(''z'', ''9'')] = {}
   \<and> snd (Delete (fake_vault 200 [(''z'', ''9'')] 200) test_client
            (Inr (test_model [(''a'', ''1'')])))
       = [get_request test_client ''http://vault/v1/kv/data/app'',
          post_request test_client ''http://vault/v1/kv/data/app'' [(''z'', ''9'')]]
   \<and> client_Do (fake_vault 404 [] 200) (get_request test_client ''http://vault/v1/kv/data/app'')
       = Inr \<lparr>StatusCode = 404, ReadAll_bytes = ''body'', ReadAll_err = None\<rparr>
   \<and> snd (Delete (fake_vault 404 [] 200) test_client (Inr (test_model [(''a'', ''1'')])))
       = [get_request test_client ''http://vault/v1/kv/data/app'',
          post_request test_client ''http://vault/v1/kv/data/app'' []]"
  using Delete_always_stores [of "test_model [(''a'', ''1'')]" "[(''a'', ''1'')]"
      "fake_vault 200 [(''a'', ''5''), (''z'', ''9'')] 200" test_client]
    Delete_always_stores [of "test_model [(''a'', ''1'')]" "[(''a'', ''1'')]"
      "fake_vault 200 [(''z'', ''9'')] 200" test_client]
    Delete_always_stores [of "test_model [(''a'', ''1'')]" "[(''a'', ''1'')]"
      "fake_vault 404 [] 200" test_client]
  by (simp add: run_defs)

section \<open>Refresh\<close>

text \<open>
  C6. When the fetch gives \<open>D\<close> and \<open>S\<close> is the tracked set, refresh sends the fetch only
  and reports no error. If no tracked key is in \<open>D\<close> it removes the resource from the
  state; otherwise it records the observed set, which maps a key to its value in \<open>D\<close>
  exactly when the key is tracked and present in \<open>D\<close>, and has no other key.
\<close>

theorem Read_drift_detection:
  assumes "Keys state = Inr S"
    and "fst (readSecret w c (Mount state) (Path state)) = Inr D"
  shows "snd (Read w c (Inr state)) = [get_request c (secret_url c (Mount state) (Path state))]
       \<and> Diagnostics (fst (Read w c (Inr state))) = []
       \<and> (if \<forall>k \<in> fst ` set S. map_of D k = None
          then State (fst (Read w c (Inr state))) = RemoveResource
          else \<exists>observed. State (fst (Read w c (Inr state))) =
                              StateSet (state\<lparr>Keys := Inr observed\<rparr>)
                  \<and> (\<forall>k. map_of observed k = (if k \<in> fst ` set S then map_of D k else None)))"
proof -
  let ?cur = "fold (\<lambda>key cur. case map_of D key of
                                 Some val \<Rightarrow> AList.update key val cur
                               | None \<Rightarrow> cur) (map fst S) []"
  obtain sent where r: "readSecret w c (Mount state) (Path state) = (Inr D, sent)"
    using assms(2) by (cases "readSecret w c (Mount state) (Path state)") simp
  have sent: "sent = [get_request c (secret_url c (Mount state) (Path state))]"
    using readSecret_ok_sent [OF assms(2)] r by simp
  have look: "map_of ?cur k = (if k \<in> fst ` set S then map_of D k else None)" for k
    by (simp add: fold_observe_map_of)
  have "?cur = [] \<longleftrightarrow> map_of ?cur = Map.empty" by simp
  also have "\<dots> \<longleftrightarrow> (\<forall>k \<in> fst ` set S. map_of D k = None)"
    unfolding fun_eq_iff look by auto
  finally have empty: "?cur = [] \<longleftrightarrow> (\<forall>k \<in> fst ` set S. map_of D k = None)" .
  have run: "Read w c (Inr state) =
               (if ?cur = [] then (\<lparr>Diagnostics = [], State = RemoveResource\<rparr>, sent)
                else (\<lparr>Diagnostics = [], State = StateSet (state\<lparr>Keys := Inr ?cur\<rparr>)\<rparr>, sent))"
    by (simp add: Read_def Let_def assms(1) r)
  show ?thesis
  proof (cases "?cur = []")
    case True
    then show ?thesis using empty by (simp add: run sent)
  next
    case False
    then have ne: "\<not> (\<forall>k \<in> fst ` set S. map_of D k = None)" using empty by simp
    have "\<exists>observed. StateSet (state\<lparr>Keys := Inr ?cur\<rparr>) = StateSet (state\<lparr>Keys := Inr observed\<rparr>)
            \<and> (\<forall>k. map_of observed k = (if k \<in> fst ` set S then map_of D k else None))"
      by (rule exI [of _ ?cur]) (simp add: look)
    then show ?thesis using False ne by (simp add: run sent)
  qed
qed

theorem Read_drift_detection_witness:
  "Keys (test_model [(''a'', ''0''), (''b'', ''2'')]) = Inr [(''a'', ''0''), (''b'', ''2'')]
   \<and> fst (readSecret (fake_vault 200 [(''a'', ''1''), (''c'', ''3'')] 200) test_client ''kv'' ''app'')
       = Inr [(''a'', ''1''), (''c'', ''3'')]
   \<and> Read (fake_vault 200 [(''a'', ''1''), (''c'', ''3'')] 200) test_client
        (Inr (test_model [(''a'', ''0''), (''b'', ''2'')]))
       = (\<lparr>Diagnostics = [],
           State = StateSet \<lparr>ID = [], Mount = ''kv'', Path = ''app'',
                             Keys = Inr [(''a'', ''1'')]\<rparr>\<rparr>,
          [get_request test_client ''http://vault/v1/kv/data/app''])
   \<and> fst (readSecret (fake_vault 200 [(''c'', ''3'')] 200) test_client ''kv'' ''app'')
       = Inr [(''c'', ''3'')]
   \<and> Read (fake_vault 200 [(''c'', ''3'')] 200) test_client
        (Inr (test_model [(''a'', ''0''), (''b'', ''2'')]))
       = (\<lparr>Diagnostics = [], State = RemoveResource\<rparr>,
          [get_request test_client ''http://vault/v1/kv/data/app''])"
  using Read_drift_detection [of "test_model [(''a'', ''0''), (''b'', ''2'')]"
      "[(''a'', ''0''), (''b'', ''2'')]" "fake_vault 200 [(''a'', ''1''), (''c'', ''3'')] 200"
      test_client "[(''a'', ''1''), (''c'', ''3'')]"]
    Read_drift_detection [of "test_model [(''a'', ''0''), (''b'', ''2'')]"
      "[(''a'', ''0''), (''b'', ''2'')]" "fake_vault 200 [(''c'', ''3'')] 200"
      test_client "[(''c'', ''3'')]"]
  by (simp add: run_defs)

section \<open>Import\<close>

text \<open>
  C9. An import ID with a non-empty mount before its first \<open>/\<close> and a non-empty path
  after it: when the fetch at that location gives \<open>D\<close>, import reports no error and
  sets the state to that ID, mount and path with the managed keys equal to \<open>D\<close>, the
  whole fetched document, entry for entry.
\<close>

theorem ImportState_adopts_document:
  assumes "CHR ''/'' \<notin> set mount" "mount \<noteq> []" "path \<noteq> []"
    and "fst (readSecret w c mount path) = Inr D"
  shows "ImportState w c (mount @ ''/'' @ path) =
           (\<lparr>Diagnostics = [],
             State = StateSet \<lparr>ID = mount @ ''/'' @ path, Mount = mount, Path = path,
                               Keys = Inr D\<rparr>\<rparr>,
            [get_request c (secret_url c mount path)])"
proof -
  obtain sent where r: "readSecret w c mount path = (Inr D, sent)"
    using assms(4) by (cases "readSecret w c mount path") simp
  have sent: "sent = [get_request c (secret_url c mount path)]"
    using readSecret_ok_sent [OF assms(4)] r by simp
  have idx: "strings_Index (mount @ CHR ''/'' # path) (CHR ''/'') = int (length mount)"
    using assms(1) by (rule strings_Index_split)
  have suc: "nat (int (length mount) + 1) = Suc (length mount)" by simp
  show ?thesis
    using assms(2,3) by (simp add: ImportState_def Let_def idx suc r sent)
qed

theorem ImportState_adopts_document_witness:
  "CHR ''/'' \<notin> set ''kv'' \<and> ''kv'' \<noteq> [] \<and> ''app/prod'' \<noteq> []
   \<and> fst (readSecret (fake_vault 200 [(''a'', ''1''), (''b'', ''2'')] 200) test_client
            ''kv'' ''app/prod'')
       = Inr [(''a'', ''1''), (''b'', ''2'')]
   \<and> ImportState (fake_vault 200 [(''a'', ''1''), (''b'', ''2'')] 200) test_client ''kv/app/prod''
       = (\<lparr>Diagnostics = [],
           State = StateSet \<lparr>ID = ''kv/app/prod'', Mount = ''kv'', Path = ''app/prod'',
                             Keys = Inr [(''a'', ''1''), (''b'', ''2'')]\<rparr>\<rparr>,
          [get_request test_client ''http://vault/v1/kv/data/app/prod''])"
  using ImportState_adopts_document [of "''kv''" "''app/prod''"
      "fake_vault 200 [(''a'', ''1''), (''b'', ''2'')] 200" test_client
      "[(''a'', ''1''), (''b'', ''2'')]"]
  by (simp add: run_defs)

section \<open>Absent document\<close>

text \<open>
  C7. Two worlds that differ only in the answer to the fetch: in \<open>w\<close> the server
  answers 404 (document absent), in \<open>w'\<close> it answers 200 with an empty document (an
  empty or a nil data map). Create, update and delete at that location give the same
  response and send the same requests in both.
\<close>

theorem absent_as_empty:
  assumes "http_NewRequest_err w' = http_NewRequest_err w"
    and "\<forall>u d. client_Do w' (post_request c u d) = client_Do w (post_request c u d)"
    and "Mount plan = m" "Path plan = p" "Mount state = m" "Path state = p"
    and "http_NewRequest_err w (secret_url c m p) = None"
    and "client_Do w (get_request c (secret_url c m p)) = Inr r404"
    and "StatusCode r404 = 404" "ReadAll_err r404 = None"
    and "client_Do w' (get_request c (secret_url c m p)) = Inr r200"
    and "StatusCode r200 = 200" "ReadAll_err r200 = None"
    and "json_Unmarshal w' (ReadAll_bytes r200) = Inr None
         \<or> json_Unmarshal w' (ReadAll_bytes r200) = Inr (Some [])"
  shows "Create w c (Inr plan) = Create w' c (Inr plan)
       \<and> Update w c (Inr plan) (Inr state) = Update w' c (Inr plan) (Inr state)
       \<and> Delete w c (Inr state) = Delete w' c (Inr state)"
proof -
  have r: "readSecret w c m p = (Inr [], [get_request c (secret_url c m p)])"
    using assms(7-10) by (simp add: readSecret_def Let_def)
  have r': "readSecret w' c m p = (Inr [], [get_request c (secret_url c m p)])"
    using assms(1,7,11-14) by (auto simp: readSecret_def Let_def)
  have wr: "writeSecret w' c m p d = writeSecret w c m p d" for d
    using assms(1,2) by (rule writeSecret_cong)
  have "Create w c (Inr plan) = Create w' c (Inr plan)"
    by (simp add: Create_def Let_def assms(3,4) r r' wr split: sum.splits)
  moreover have "Update w c (Inr plan) (Inr state) = Update w' c (Inr plan) (Inr state)"
    by (simp add: Update_def Let_def assms(3,4) r r' wr split: sum.splits)
  moreover have "Delete w c (Inr state) = Delete w' c (Inr state)"
    by (simp add: Delete_def Let_def assms(5,6) r r' wr split: sum.splits)
  ultimately show ?thesis by simp
qed

theorem absent_as_empty_witness:
  "http_NewRequest_err (fake_vault 200 [] 200) = http_NewRequest_err (fake_vault 404 [(''x'', ''y'')] 200)
   \<and> client_Do (fake_vault 404 [(''x'', ''y'')] 200)
        (get_request test_client ''http://vault/v1/kv/data/app'')
       = Inr \<lparr>StatusCode = 404, ReadAll_bytes = ''body'', ReadAll_err = None\<rparr>
   \<and> client_Do (fake_vault 200 [] 200)
        (get_request test_client ''http://vault/v1/kv/data/app'')
       = Inr \<lparr>StatusCode = 200, ReadAll_bytes = ''body'', ReadAll_err = None\<rparr>
   \<and> json_Unmarshal (fake_vault 200 [] 200) ''body'' = Inr (Some [])
   \<and> Create (fake_vault 404 [(''x'', ''y'')] 200) test_client (Inr (test_model [(''a'', ''1'')]))
       = Create (fake_vault 200 [] 200) test_client (Inr (test_model [(''a'', ''1'')]))
   \<and> snd (Create (fake_vault 200 [] 200) test_client (Inr (test_model [(''a'', ''1'')])))
       = [get_request test_client ''http://vault/v1/kv/data/app'',
          post_request test_client ''http://vault/v1/kv/data/app'' [(''a'', ''1'')]]
   \<and> Update (fake_vault 404 [(''x'', ''y'')] 200) test_client (Inr (test_model [(''a'', ''1'')]))
        (Inr (test_model [(''b'', ''2'')]))
       = Update (fake_vault 200 [] 200) test_client (Inr (test_model [(''a'', ''1'')]))
           (Inr (test_model [(''b'', ''2'')]))
   \<and> Delete (fake_vault 404 [(''x'', ''y'')] 200) test_client (Inr (test_model [(''b'', ''2'')]))
       = Delete (fake_vault 200 [] 200) test_client (Inr (test_model [(''b'', ''2'')]))"
  using absent_as_empty [of "fake_vault 200 [] 200" "fake_vault 404 [(''x'', ''y'')] 200"
      test_client "test_model [(''a'', ''1'')]" "''kv''" "''app''" "test_model [(''b'', ''2'')]"
      "\<lparr>StatusCode = 404, ReadAll_bytes = ''body'', ReadAll_err = None\<rparr>"
      "\<lparr>StatusCode = 200, ReadAll_bytes = ''body'', ReadAll_err = None\<rparr>"]
  by (simp add: run_defs)

section \<open>Error propagation\<close>

text \<open>
  C4, as stated, fails on refresh: with the server unreachable the fetch fails, and
  \<open>Read\<close> reports no error at all; it removes the resource from the state. So delete is
  not the only operation that absorbs a fetch error.
\<close>

theorem refresh_absorbs_fetch_error:
  "fst (readSecret unreachable_vault test_client ''kv'' ''app'')
     = Inl ''failed to send request: connection refused''
   \<and> Read unreachable_vault test_client (Inr (test_model [(''a'', ''1'')]))
     = (\<lparr>Diagnostics = [], State = RemoveResource\<rparr>,
        [get_request test_client ''http://vault/v1/kv/data/app''])"
  by (simp add: Read_def readSecret_def unreachable_vault_def test_client_def test_model_def
      secret_url_def Let_def)

text \<open>
  C4, amended. A fetch error \<open>err\<close> of \<open>readSecret\<close> aborts create, update and import:
  the only diagnostic is an error whose detail ends with \<open>err\<close> unchanged, the state is
  untouched and nothing is sent after the fetch. A store error \<open>err\<close> of \<open>writeSecret\<close>
  aborts create, update and delete in the same way. Two operations absorb a fetch
  error without reporting it: delete, which then does nothing, and refresh, which
  removes the resource from the state.
\<close>

theorem error_propagation:
  assumes "Keys plan = Inr P" "Keys state = Inr S"
    and "CHR ''/'' \<notin> set mount" "mount \<noteq> []" "path \<noteq> []"
  shows "(\<forall>err. fst (readSecret w c (Mount plan) (Path plan)) = Inl err \<longrightarrow>
            Create w c (Inr plan) =
              (\<lparr>Diagnostics =
                  [(''Failed to Read Existing Secret'',
                    ''Could not read '' @ Mount plan @ ''/'' @ Path plan @ '': '' @ err)],
                State = Untouched\<rparr>,
               snd (readSecret w c (Mount plan) (Path plan)))
          \<and> Update w c (Inr plan) (Inr state) =
              (\<lparr>Diagnostics =
                  [(''Failed to Read Existing Secret'',
                    ''Could not read '' @ Mount plan @ ''/'' @ Path plan @ '': '' @ err)],
                State = Untouched\<rparr>,
               snd (readSecret w c (Mount plan) (Path plan))))
       \<and> (\<forall>err. fst (readSecret w c mount path) = Inl err \<longrightarrow>
            ImportState w c (mount @ ''/'' @ path) =
              (\<lparr>Diagnostics =
                  [(''Failed to Read Secret During Import'',
                    ''Could not read '' @ mount @ ''/'' @ path @ '': '' @ err)],
                State = Untouched\<rparr>,
               snd (readSecret w c mount path)))
       \<and> (\<forall>err. fst (readSecret w c (Mount state) (Path state)) = Inl err \<longrightarrow>
            Delete w c (Inr state) =
              (\<lparr>Diagnostics = [], State = Untouched\<rparr>,
               snd (readSecret w c (Mount state) (Path state)))
          \<and> Read w c (Inr state) =
              (\<lparr>Diagnostics = [], State = RemoveResource\<rparr>,
               snd (readSecret w c (Mount state) (Path state))))
       \<and> (\<forall>D err. fst (readSecret w c (Mount plan) (Path plan)) = Inr D \<longrightarrow>
            (\<not> keysMatch D P
               \<and> fst (writeSecret w c (Mount plan) (Path plan) (mergeKeys D P)) = Some err \<longrightarrow>
             fst (Create w c (Inr plan)) =
               \<lparr>Diagnostics =
                  [(''Failed to Write Secret'',
                    ''Could not write to '' @ Mount plan @ ''/'' @ Path plan @ '': '' @ err)],
                State = Untouched\<rparr>)
          \<and> (fst (writeSecret w c (Mount plan) (Path plan)
                     (mergeKeys (fold (\<lambda>key ed. if map_of P key = None
                                                  then AList.delete key ed else ed)
                                      (map fst S) D) P)) = Some err \<longrightarrow>
             fst (Update w c (Inr plan) (Inr state)) =
               \<lparr>Diagnostics =
                  [(''Failed to Write Secret'',
                    ''Could not write to '' @ Mount plan @ ''/'' @ Path plan @ '': '' @ err)],
                State = Untouched\<rparr>))
       \<and> (\<forall>D err. fst (readSecret w c (Mount state) (Path state)) = Inr D
              \<and> fst (writeSecret w c (Mount state) (Path state)
                       (fold (\<lambda>key ed. AList.delete key ed) (map fst S) D)) = Some err \<longrightarrow>
            fst (Delete w c (Inr state)) =
              \<lparr>Diagnostics =
                 [(''Failed to Write Secret After Delete'',
                   ''Could not update '' @ Mount state @ ''/'' @ Path state
                   @ '' after removing keys: '' @ err)],
               State = Untouched\<rparr>)"
proof (intro conjI allI impI)
  fix err
  assume f: "fst (readSecret w c (Mount plan) (Path plan)) = Inl err"
  show "Create w c (Inr plan) =
          (\<lparr>Diagnostics =
              [(''Failed to Read Existing Secret'',
                ''Could not read '' @ Mount plan @ ''/'' @ Path plan @ '': '' @ err)],
            State = Untouched\<rparr>,
           snd (readSecret w c (Mount plan) (Path plan)))"
    using assms(1) f by (rule Create_fetch_failed)
  show "Update w c (Inr plan) (Inr state) =
          (\<lparr>Diagnostics =
              [(''Failed to Read Existing Secret'',
                ''Could not read '' @ Mount plan @ ''/'' @ Path plan @ '': '' @ err)],
            State = Untouched\<rparr>,
           snd (readSecret w c (Mount plan) (Path plan)))"
    using assms(1,2) f by (rule Update_fetch_failed)
next
  fix err
  assume "fst (readSecret w c mount path) = Inl err"
  with assms(3-5) show "ImportState w c (mount @ ''/'' @ path) =
          (\<lparr>Diagnostics =
              [(''Failed to Read Secret During Import'',
                ''Could not read '' @ mount @ ''/'' @ path @ '': '' @ err)],
            State = Untouched\<rparr>,
           snd (readSecret w c mount path))"
    by (rule ImportState_fetch_failed)
next
  fix err
  assume f: "fst (readSecret w c (Mount state) (Path state)) = Inl err"
  show "Delete w c (Inr state) =
          (\<lparr>Diagnostics = [], State = Untouched\<rparr>,
           snd (readSecret w c (Mount state) (Path state)))"
    using assms(2) f by (rule Delete_fetch_failed)
  show "Read w c (Inr state) =
          (\<lparr>Diagnostics = [], State = RemoveResource\<rparr>,
           snd (readSecret w c (Mount state) (Path state)))"
    using assms(2) f by (rule Read_fetch_failed)
next
  fix D err
  assume f: "fst (readSecret w c (Mount plan) (Path plan)) = Inr D"
    and s: "\<not> keysMatch D P
            \<and> fst (writeSecret w c (Mount plan) (Path plan) (mergeKeys D P)) = Some err"
  show "fst (Create w c (Inr plan)) =
          \<lparr>Diagnostics =
             [(''Failed to Write Secret'',
               ''Could not write to '' @ Mount plan @ ''/'' @ Path plan @ '': '' @ err)],
           State = Untouched\<rparr>"
    using assms(1) f conjunct1 [OF s] conjunct2 [OF s] by (rule Create_store_failed)
next
  fix D err
  assume f: "fst (readSecret w c (Mount plan) (Path plan)) = Inr D"
    and s: "fst (writeSecret w c (Mount plan) (Path plan)
                   (mergeKeys (fold (\<lambda>key ed. if map_of P key = None
                                                then AList.delete key ed else ed)
                                    (map fst S) D) P)) = Some err"
  show "fst (Update w c (Inr plan) (Inr state)) =
          \<lparr>Diagnostics =
             [(''Failed to Write Secret'',
               ''Could not write to '' @ Mount plan @ ''/'' @ Path plan @ '': '' @ err)],
           State = Untouched\<rparr>"
    using assms(1,2) f s by (rule Update_store_failed)
next
  fix D err
  assume a: "fst (readSecret w c (Mount state) (Path state)) = Inr D
              \<and> fst (writeSecret w c (Mount state) (Path state)
                       (fold (\<lambda>key ed. AList.delete key ed) (map fst S) D)) = Some err"
  show "fst (Delete w c (Inr state)) =
          \<lparr>Diagnostics =
             [(''Failed to Write Secret After Delete'',
               ''Could not update '' @ Mount state @ ''/'' @ Path state
               @ '' after removing keys: '' @ err)],
           State = Untouched\<rparr>"
    using assms(2) conjunct1 [OF a] conjunct2 [OF a] by (rule Delete_store_failed)
qed

theorem error_propagation_witness:
  "Keys (test_model [(''a'', ''1'')]) = Inr [(''a'', ''1'')]
   \<and> CHR ''/'' \<notin> set ''kv'' \<and> ''kv'' \<noteq> [] \<and> ''app'' \<noteq> []
   \<and> fst (readSecret unreachable_vault test_client ''kv'' ''app'')
       = Inl ''failed to send request: connection refused''
   \<and> Create unreachable_vault test_client (Inr (test_model [(''a'', ''1'')]))
       = (\<lparr>Diagnostics =
             [(''Failed to Read Existing Secret'',
               ''Could not read kv/app: failed to send request: connection refused'')],
           State = Untouched\<rparr>,
          [get_request test_client ''http://vault/v1/kv/data/app''])
   \<and> ImportState unreachable_vault test_client ''kv/app''
       = (\<lparr>Diagnostics =
             [(''Failed to Read Secret During Import'',
               ''Could not read kv/app: failed to send request: connection refused'')],
           State = Untouched\<rparr>,
          [get_request test_client ''http://vault/v1/kv/data/app''])
   \<and> Delete unreachable_vault test_client (Inr (test_model [(''a'', ''1'')]))
       = (\<lparr>Diagnostics = [], State = Untouched\<rparr>,
          [get_request test_client ''http://vault/v1/kv/data/app''])
   \<and> fst (readSecret (fake_vault 200 [(''z'', ''9'')] 500) test_client ''kv'' ''app'')
       = Inr [(''z'', ''9'')]
   \<and> fst (writeSecret (fake_vault 200 [(''z'', ''9'')] 500) test_client ''kv'' ''app''
            [(''z'', ''9''), (''a'', ''1'')])
       = Some ''vault returned status 500: body''
   \<and> fst (Create (fake_vault 200 [(''z'', ''9'')] 500) test_client (Inr (test_model [(''a'', ''1'')])))
       = \<lparr>Diagnostics =
            [(''Failed to Write Secret'',
              ''Could not write to kv/app: vault returned status 500: body'')],
          State = Untouched\<rparr>
   \<and> fst (Delete (fake_vault 200 [(''z'', ''9'')] 500) test_client (Inr (test_model [(''a'', ''1'')])))
       = \<lparr>Diagnostics =
            [(''Failed to Write Secret After Delete'',
              ''Could not update kv/app after removing keys: vault returned status 500: body'')],
          State = Untouched\<rparr>"
  using error_propagation [of "test_model [(''a'', ''1'')]" "[(''a'', ''1'')]"
      "test_model [(''a'', ''1'')]" "[(''a'', ''1'')]" "''kv''" "''app''"
      unreachable_vault test_client]
    error_propagation [of "test_model [(''a'', ''1'')]" "[(''a'', ''1'')]"
      "test_model [(''a'', ''1'')]" "[(''a'', ''1'')]" "''kv''" "''app''"
      "fake_vault 200 [(''z'', ''9'')] 500" test_client]
  by (simp add: run_defs)

end
